theory Spec2Isabelle
  imports Main "HOL-Library.Word"
begin

section \<open>Strings\<close>

text \<open>
  Identifiers of the program (field names, segment types, option keys, locale tags) are
  ASCII and are modelled as \<open>string\<close>. Text that is displayed (labels, placeholders,
  formatted parts) is a JavaScript string: a sequence of UTF-16 code units, whose
  \<open>length\<close> is the number of code units.
\<close>

type_synonym js_string = "16 word list"

section \<open>Display names: \<open>packages/@react-aria/datepicker/src/useDisplayNames.ts\<close>\<close>

text \<open>
  The platform's \<open>Intl.DisplayNames\<close> is a parameter. Its constructor
  \<open>new Intl.DisplayNames(locale, {type: 'dateTimeField'})\<close> either throws or returns an
  object; the object's \<open>of\<close> either throws or returns a string or \<open>undefined\<close>.
\<close>

datatype platform_error = RangeError | TypeError

type_synonym IntlDisplayNames = "string \<Rightarrow> platform_error + js_string option"

type_synonym IntlDisplayNames_ctor = "string \<Rightarrow> platform_error + IntlDisplayNames"

text \<open>
  The bundled translation table (\<open>../intl/*.json\<close>, behind
  \<open>useLocalizedStringDictionary\<close>) is a parameter as well:
  \<open>getStringForLocale(key, locale)\<close> returns a string or throws.
\<close>

datatype dictionary_error = MissingString

type_synonym LocalizedStringDictionary = "string \<Rightarrow> string \<Rightarrow> dictionary_error + js_string"

text \<open>What an \<open>of\<close> call can throw, by origin, and the calls it makes to its collaborators.\<close>

datatype thrown = Platform platform_error | Dictionary dictionary_error

datatype call = IntlNew string | IntlOf string | GetStringForLocale string string

text \<open>
  The interface \<open>DisplayNames\<close>: \<open>of(field): string | undefined\<close>. A call returns the
  calls it made, in order, and its outcome.
\<close>

type_synonym DisplayNames = "string \<Rightarrow> call list \<times> (thrown + js_string option)"

record DisplayNamesPolyfill =
  polyfill_locale :: string
  polyfill_dictionary :: LocalizedStringDictionary

definition DisplayNamesPolyfill_of :: "DisplayNamesPolyfill \<Rightarrow> DisplayNames" where
  "DisplayNamesPolyfill_of this field =
     ([GetStringForLocale field (polyfill_locale this)],
      case polyfill_dictionary this field (polyfill_locale this) of
        Inl e \<Rightarrow> Inl (Dictionary e)
      | Inr s \<Rightarrow> Inr (Some s))"

text \<open>
  The object literal returned inside the outer \<open>try\<close>: \<open>intlDisplayNames.of\<close> is called
  only when \<open>field !== 'millisecond'\<close>; what it returns is returned (also \<open>undefined\<close>);
  what it throws is caught, and the polyfill answers.
\<close>

definition wrapped_of :: "IntlDisplayNames \<Rightarrow> DisplayNamesPolyfill \<Rightarrow> DisplayNames" where
  "wrapped_of intlDisplayNames polyfill field =
     (if field \<noteq> ''millisecond'' then
        (case intlDisplayNames field of
           Inr r \<Rightarrow> ([IntlOf field], Inr r)
         | Inl e \<Rightarrow>
             (IntlOf field # fst (DisplayNamesPolyfill_of polyfill field),
              snd (DisplayNamesPolyfill_of polyfill field)))
      else DisplayNamesPolyfill_of polyfill field)"

text \<open>
  \<open>useDisplayNames\<close>, with the results of \<open>useLocale\<close> and
  \<open>useLocalizedStringDictionary\<close> as arguments. It returns the calls made while the
  object is built and the object's \<open>of\<close>.
\<close>

definition useDisplayNames ::
  "IntlDisplayNames_ctor \<Rightarrow> LocalizedStringDictionary \<Rightarrow> string \<Rightarrow> call list \<times> DisplayNames" where
  "useDisplayNames Intl_DisplayNames dictionary locale' =
     (let polyfill = \<lparr>polyfill_locale = locale', polyfill_dictionary = dictionary\<rparr>
      in case Intl_DisplayNames locale' of
           Inr intlDisplayNames \<Rightarrow> ([IntlNew locale'], wrapped_of intlDisplayNames polyfill)
         | Inl e \<Rightarrow> ([IntlNew locale'], DisplayNamesPolyfill_of polyfill))"

text \<open>The \<open>of\<close> of the object \<open>useDisplayNames\<close> returns.\<close>

definition displayNames_of ::
  "IntlDisplayNames_ctor \<Rightarrow> LocalizedStringDictionary \<Rightarrow> string \<Rightarrow> DisplayNames" where
  "displayNames_of Intl_DisplayNames dictionary locale' =
     snd (useDisplayNames Intl_DisplayNames dictionary locale')"

text \<open>Concrete collaborators used to run the definitions.\<close>

definition label_ms :: js_string where
  "label_ms = [0x6D, 0x73]"

definition label_minute :: js_string where
  "label_minute = [0x6D, 0x69, 0x6E, 0x75, 0x74, 0x65]"

definition dictionary_en :: LocalizedStringDictionary where
  "dictionary_en key loc =
     (if key = ''millisecond'' then Inr label_ms
      else if key = ''minute'' then Inr label_minute
      else Inl MissingString)"

definition Intl_absent :: IntlDisplayNames_ctor where
  "Intl_absent loc = Inl TypeError"

definition Intl_v1 :: IntlDisplayNames_ctor where
  "Intl_v1 loc = Inr (\<lambda>field. Inl RangeError)"

section \<open>Tables of the field state (\<open>@react-stately/datepicker\<close>)\<close>

text \<open>
  \<open>Granularity\<close> (\<open>@react-types/datepicker/src/index.d.ts\<close>) and \<open>SegmentType\<close>
  (\<open>useDateFieldState.ts\<close>) are unions of string literals. The millisecond field of a
  value appears among the segment types under the platform's part name
  \<open>'fractionalSecond'\<close>.
\<close>

definition Granularity :: "string list" where
  "Granularity = [''day'', ''hour'', ''minute'', ''second'', ''millisecond'']"

definition SegmentType :: "string list" where
  "SegmentType =
     [''era'', ''year'', ''month'', ''day'', ''hour'', ''minute'', ''second'',
      ''fractionalSecond'', ''dayPeriod'', ''literal'', ''timeZoneName'']"

text \<open>A value of an option or table entry: a display form such as \<open>'numeric'\<close>, or a number.\<close>

datatype option_value = Str string | Num int

text \<open>Objects are association lists in insertion order; \<open>map_of\<close> reads a key.\<close>

definition DEFAULT_FIELD_OPTIONS :: "(string \<times> option_value) list" where
  "DEFAULT_FIELD_OPTIONS =
     [(''year'', Str ''numeric''),
      (''month'', Str ''numeric''),
      (''day'', Str ''numeric''),
      (''hour'', Str ''numeric''),
      (''minute'', Str ''2-digit''),
      (''second'', Str ''2-digit''),
      (''fractionalSecondDigits'', Num 3)]"

definition EDITABLE_SEGMENTS :: "(string \<times> bool) list" where
  "EDITABLE_SEGMENTS =
     [(''year'', True),
      (''month'', True),
      (''day'', True),
      (''hour'', True),
      (''minute'', True),
      (''second'', True),
      (''fractionalSecond'', True),
      (''dayPeriod'', True),
      (''era'', True)]"

definition PAGE_STEP :: "(string \<times> int) list" where
  "PAGE_STEP =
     [(''year'', 5),
      (''month'', 2),
      (''day'', 7),
      (''hour'', 2),
      (''minute'', 15),
      (''second'', 15),
      (''fractionalSecond'', 100)]"

section \<open>Date and time values\<close>

text \<open>
  The three value shapes of \<open>@internationalized/date\<close> the field state works on:
  \<open>Time\<close>, \<open>CalendarDateTime\<close> and \<open>ZonedDateTime\<close>. Each has a \<open>millisecond\<close>
  property.
\<close>

record DateFields =
  year :: int
  month :: int
  day :: int

record TimeFields =
  hour :: int
  minute :: int
  second :: int
  millisecond :: int

datatype DateTimeValue =
    Time TimeFields
  | CalendarDateTime DateFields TimeFields
  | ZonedDateTime DateFields TimeFields string

fun time_of :: "DateTimeValue \<Rightarrow> TimeFields" where
  "time_of (Time t) = t"
| "time_of (CalendarDateTime d t) = t"
| "time_of (ZonedDateTime d t z) = t"

text \<open>
  Modelled from the spec: the constructors of the value types (\<open>@internationalized/date\<close>)
  are missing. A value built without a millisecond argument, as \<open>Time(12, 30, 45)\<close>, has
  the millisecond field 0.
\<close>

definition default_millisecond :: "int option \<Rightarrow> int" where
  "default_millisecond ms = (case ms of None \<Rightarrow> 0 | Some n \<Rightarrow> n)"

definition new_Time :: "int \<Rightarrow> int \<Rightarrow> int \<Rightarrow> int option \<Rightarrow> DateTimeValue" where
  "new_Time h mi s ms =
     Time \<lparr>hour = h, minute = mi, second = s, millisecond = default_millisecond ms\<rparr>"

definition new_CalendarDateTime ::
  "int \<Rightarrow> int \<Rightarrow> int \<Rightarrow> int \<Rightarrow> int \<Rightarrow> int \<Rightarrow> int option \<Rightarrow> DateTimeValue" where
  "new_CalendarDateTime y mo d h mi s ms =
     CalendarDateTime \<lparr>year = y, month = mo, day = d\<rparr>
       \<lparr>hour = h, minute = mi, second = s, millisecond = default_millisecond ms\<rparr>"

definition new_ZonedDateTime ::
  "int \<Rightarrow> int \<Rightarrow> int \<Rightarrow> string \<Rightarrow> int \<Rightarrow> int \<Rightarrow> int \<Rightarrow> int option \<Rightarrow> DateTimeValue" where
  "new_ZonedDateTime y mo d z h mi s ms =
     ZonedDateTime \<lparr>year = y, month = mo, day = d\<rparr>
       \<lparr>hour = h, minute = mi, second = s, millisecond = default_millisecond ms\<rparr> z"

section \<open>Format options (\<open>utils.ts\<close>)\<close>

text \<open>
  The ordered keys \<open>getFormatOptions\<close> looks the granularity up in, with
  \<open>'millisecond'\<close> added at the end of the chain.
\<close>

definition field_keys :: "string list" where
  "field_keys =
     [''year'', ''month'', ''day'', ''hour'', ''minute'', ''second'', ''millisecond'']"

fun indexOf :: "'a list \<Rightarrow> 'a \<Rightarrow> nat option" where
  "indexOf [] x = None"
| "indexOf (y # ys) x =
     (if y = x then Some 0 else (case indexOf ys x of None \<Rightarrow> None | Some i \<Rightarrow> Some (Suc i)))"

datatype resolve_error = InvalidGranularity

text \<open>
  Modelled from the spec: the body of \<open>getFormatOptions\<close> is missing. The entry a field
  contributes to the formatter options is the explicit display form if one is given,
  else the default of \<open>DEFAULT_FIELD_OPTIONS\<close>; for the millisecond field, the
  fractional-digit count 3.
\<close>

definition field_entry ::
  "(string \<rightharpoonup> option_value) \<Rightarrow> string \<Rightarrow> (string \<times> option_value) list" where
  "field_entry fieldOptions key =
     (if key = ''millisecond'' then [(''fractionalSecondDigits'', Num 3)]
      else (case fieldOptions key of
              Some v \<Rightarrow> [(key, v)]
            | None \<Rightarrow>
                (case map_of DEFAULT_FIELD_OPTIONS key of
                   Some v \<Rightarrow> [(key, v)]
                 | None \<Rightarrow> [])))"

text \<open>
  Modelled from the spec: \<open>getFormatOptions\<close> (\<open>utils.ts\<close>) is missing; the source has its
  table \<open>DEFAULT_FIELD_OPTIONS\<close>, the ordered keys and the list of changes made to it.
  \<open>resolve(granularity, explicitOptions)\<close> fails with \<open>InvalidGranularity\<close> on an
  identifier that is not a granularity; otherwise it walks the fixed ordering up to and
  including the granularity and includes each field's entry.
\<close>

definition getFormatOptions ::
  "(string \<rightharpoonup> option_value) \<Rightarrow> string \<Rightarrow> resolve_error + (string \<times> option_value) list" where
  "getFormatOptions fieldOptions granularity =
     (if granularity \<notin> set Granularity then Inl InvalidGranularity
      else (case indexOf field_keys granularity of
              None \<Rightarrow> Inl InvalidGranularity
            | Some endIdx \<Rightarrow>
                Inr (concat (map (field_entry fieldOptions) (take (Suc endIdx) field_keys)))))"

text \<open>
  Reading the options: the position of a field in the fixed ordering, the option key that
  carries a field, and whether the options include a field.
\<close>

definition field_rank :: "string \<Rightarrow> nat" where
  "field_rank f = (case indexOf field_keys f of Some i \<Rightarrow> i | None \<Rightarrow> length field_keys)"

definition option_key :: "string \<Rightarrow> string" where
  "option_key f = (if f = ''millisecond'' then ''fractionalSecondDigits'' else f)"

definition has_field :: "(string \<times> option_value) list \<Rightarrow> string \<Rightarrow> bool" where
  "has_field opts f = (option_key f \<in> set (map fst opts))"

section \<open>Placeholders (\<open>placeholders.ts\<close>)\<close>

definition en_dash :: "16 word" where
  "en_dash = 0x2013"

text \<open>
  \<open>getPlaceholder(field, value, locale)\<close>; \<open>placeholders\<close> is the localized table of the
  date placeholders, a parameter.
\<close>

definition getPlaceholder ::
  "LocalizedStringDictionary \<Rightarrow> string \<Rightarrow> js_string \<Rightarrow> string \<Rightarrow> dictionary_error + js_string" where
  "getPlaceholder placeholders field v locale' =
     (if field = ''era'' \<or> field = ''dayPeriod'' then Inr v
      else if field = ''year'' \<or> field = ''month'' \<or> field = ''day'' then
        placeholders field locale'
      else if field = ''fractionalSecond'' then Inr [en_dash, en_dash, en_dash]
      else Inr [en_dash, en_dash])"

section \<open>Segments (\<open>useDateFieldState.ts\<close>)\<close>

record SegmentLimits =
  segment_value :: "int option"
  minValue :: "int option"
  maxValue :: "int option"

text \<open>
  \<open>getSegmentLimits(date, type, options)\<close>: the case \<open>'fractionalSecond'\<close> is in the
  source; the other cases of the \<open>switch\<close> are a parameter.
\<close>

definition getSegmentLimits ::
  "(DateTimeValue \<Rightarrow> string \<Rightarrow> SegmentLimits) \<Rightarrow> DateTimeValue \<Rightarrow> string \<Rightarrow> SegmentLimits" where
  "getSegmentLimits other_cases date type =
     (if type = ''fractionalSecond'' then
        \<lparr>segment_value = Some (millisecond (time_of date)),
         minValue = Some 0,
         maxValue = Some 999\<rparr>
      else other_cases date type)"

text \<open>
  \<open>addSegment(value, part, amount, options)\<close>: the case \<open>'fractionalSecond'\<close> is in the
  source. \<open>cycle\<close> is the value's method \<open>cycle(field, amount, {round})\<close> of
  \<open>@internationalized/date\<close>, a parameter, as are the other cases.
\<close>

definition addSegment ::
  "(DateTimeValue \<Rightarrow> string \<Rightarrow> int \<Rightarrow> bool \<Rightarrow> DateTimeValue) \<Rightarrow>
   (DateTimeValue \<Rightarrow> string \<Rightarrow> int \<Rightarrow> DateTimeValue) \<Rightarrow>
   DateTimeValue \<Rightarrow> string \<Rightarrow> int \<Rightarrow> DateTimeValue" where
  "addSegment cycle other_cases v part amount =
     (if part = ''fractionalSecond'' then cycle v ''millisecond'' amount True
      else other_cases v part amount)"

text \<open>
  \<open>setSegment(value, part, segmentValue, options)\<close>: the case \<open>'fractionalSecond'\<close> is
  \<open>value.set({millisecond: segmentValue})\<close>; \<open>set_millisecond\<close> is that call of the
  value's \<open>set\<close>, a parameter.
\<close>

definition setSegment ::
  "(DateTimeValue \<Rightarrow> int \<Rightarrow> DateTimeValue) \<Rightarrow>
   (DateTimeValue \<Rightarrow> string \<Rightarrow> int \<Rightarrow> DateTimeValue) \<Rightarrow>
   DateTimeValue \<Rightarrow> string \<Rightarrow> int \<Rightarrow> DateTimeValue" where
  "setSegment set_millisecond other_cases v part segmentValue =
     (if part = ''fractionalSecond'' then set_millisecond v segmentValue
      else other_cases v part segmentValue)"

subsection \<open>The segment list\<close>

text \<open>A part as \<open>Intl.DateTimeFormat.formatToParts\<close> reports it.\<close>

record Part =
  part_type :: string
  part_value :: js_string

record Segment =
  segment_type :: string
  segment_text :: js_string
  segment_limits :: SegmentLimits
  isPlaceholder :: bool
  isEditable :: bool

text \<open>
  What the segment list is built from besides its arguments: the platform's formatter
  (\<open>formatToParts\<close> of a formatter for a locale and options), the missing cases of
  \<open>getSegmentLimits\<close>, the table of placeholders, the reference value shown while there
  is no value, and the text direction.
\<close>

record Environment =
  formatToParts :: "string \<Rightarrow> (string \<times> option_value) list \<Rightarrow> DateTimeValue \<Rightarrow> Part list"
  other_limits :: "DateTimeValue \<Rightarrow> string \<Rightarrow> SegmentLimits"
  placeholders :: LocalizedStringDictionary
  placeholderValue :: DateTimeValue
  rtl :: bool

definition no_limits :: SegmentLimits where
  "no_limits = \<lparr>segment_value = None, minValue = None, maxValue = None\<rparr>"

text \<open>
  Modelled from the spec: the step of \<open>processSegments\<close> (\<open>useDateFieldState.ts\<close>, missing)
  that turns one part into a segment. A part whose type is a known field gives an
  editable segment of that type with the value and bounds of \<open>getSegmentLimits\<close>, whose
  text is the placeholder when there is no value; any other part gives a literal that is
  not editable, has no bounds and carries the raw text.
\<close>

definition segment_of_part ::
  "Environment \<Rightarrow> DateTimeValue \<Rightarrow> bool \<Rightarrow> string \<Rightarrow> Part \<Rightarrow> dictionary_error + Segment" where
  "segment_of_part env displayValue placeholderMode locale' part =
     (if map_of EDITABLE_SEGMENTS (part_type part) = Some True then
        (if placeholderMode then
           (case getPlaceholder (placeholders env) (part_type part) (part_value part) locale' of
              Inl e \<Rightarrow> Inl e
            | Inr placeholder \<Rightarrow>
                Inr \<lparr>segment_type = part_type part,
                     segment_text = placeholder,
                     segment_limits =
                       getSegmentLimits (other_limits env) displayValue (part_type part),
                     isPlaceholder = True,
                     isEditable = True\<rparr>)
         else
           Inr \<lparr>segment_type = part_type part,
                segment_text = part_value part,
                segment_limits =
                  getSegmentLimits (other_limits env) displayValue (part_type part),
                isPlaceholder = False,
                isEditable = True\<rparr>)
      else
        Inr \<lparr>segment_type = ''literal'',
             segment_text = part_value part,
             segment_limits = no_limits,
             isPlaceholder = False,
             isEditable = False\<rparr>)"

text \<open>
  Modelled from the spec: the loop of \<open>processSegments\<close> over the parts, in order; the
  first failure ends it.
\<close>

fun segments_of_parts ::
  "Environment \<Rightarrow> DateTimeValue \<Rightarrow> bool \<Rightarrow> string \<Rightarrow> Part list \<Rightarrow> dictionary_error + Segment list" where
  "segments_of_parts env displayValue placeholderMode locale' [] = Inr []"
| "segments_of_parts env displayValue placeholderMode locale' (part # parts) =
     (case segment_of_part env displayValue placeholderMode locale' part of
        Inl e \<Rightarrow> Inl e
      | Inr seg \<Rightarrow>
          (case segments_of_parts env displayValue placeholderMode locale' parts of
             Inl e \<Rightarrow> Inl e
           | Inr segs \<Rightarrow> Inr (seg # segs)))"

text \<open>
  The time segments for the handling of right-to-left text: the \<open>timeValue\<close> array, with
  \<open>'fractionalSecond'\<close> added.
\<close>

definition timeValue :: "string list" where
  "timeValue = [''hour'', ''minute'', ''second'', ''fractionalSecond'']"

definition is_time_segment :: "Segment \<Rightarrow> bool" where
  "is_time_segment seg = (segment_type seg \<in> set timeValue)"

text \<open>
  Modelled from the spec: the wrapping of \<open>processSegments\<close> is missing. The run from the
  first to the last time segment is wrapped in the markers LRI (U+2066) and PDI (U+2069),
  which are literals.
\<close>

definition marker :: "16 word \<Rightarrow> Segment" where
  "marker c =
     \<lparr>segment_type = ''literal'',
      segment_text = [c],
      segment_limits = no_limits,
      isPlaceholder = False,
      isEditable = False\<rparr>"

definition wrap_time_segments :: "Segment list \<Rightarrow> Segment list" where
  "wrap_time_segments segs =
     (if list_ex is_time_segment segs then
        (let before = takeWhile (\<lambda>s. \<not> is_time_segment s) segs;
             rest = dropWhile (\<lambda>s. \<not> is_time_segment s) segs;
             after = rev (takeWhile (\<lambda>s. \<not> is_time_segment s) (rev rest));
             run = rev (dropWhile (\<lambda>s. \<not> is_time_segment s) (rev rest))
         in before @ [marker 0x2066] @ run @ [marker 0x2069] @ after)
      else segs)"

text \<open>
  Modelled from the spec: \<open>processSegments\<close> (\<open>useDateFieldState.ts\<close>) is missing;
  \<open>parse(value, formatOptions, locale)\<close> of the spec. The value (the reference value
  when there is none yet) is formatted by the platform's formatter, each part becomes a
  segment, and in right-to-left text the time segments are wrapped.
\<close>

definition processSegments ::
  "Environment \<Rightarrow> DateTimeValue option \<Rightarrow> (string \<times> option_value) list \<Rightarrow> string \<Rightarrow>
   dictionary_error + Segment list" where
  "processSegments env v formatOptions locale' =
     (let displayValue = (case v of Some d \<Rightarrow> d | None \<Rightarrow> placeholderValue env);
          parts = formatToParts env locale' formatOptions displayValue
      in case segments_of_parts env displayValue (v = None) locale' parts of
           Inl e \<Rightarrow> Inl e
         | Inr segs \<Rightarrow> Inr (if rtl env then wrap_time_segments segs else segs))"

text \<open>The segments, and the parts, of one type.\<close>

definition segments_of_type :: "string \<Rightarrow> Segment list \<Rightarrow> Segment list" where
  "segments_of_type t segs = filter (\<lambda>s. segment_type s = t) segs"

definition parts_of_type :: "string \<Rightarrow> Part list \<Rightarrow> Part list" where
  "parts_of_type t parts = filter (\<lambda>p. part_type p = t) parts"

text \<open>Concrete collaborators used to run the definitions.\<close>

definition utf16 :: "string \<Rightarrow> js_string" where
  "utf16 s = map (\<lambda>c. of_nat (of_char c)) s"

definition formatter_en :: "string \<Rightarrow> (string \<times> option_value) list \<Rightarrow> DateTimeValue \<Rightarrow> Part list" where
  "formatter_en loc opts v =
     [\<lparr>part_type = ''hour'', part_value = utf16 ''12''\<rparr>,
      \<lparr>part_type = ''literal'', part_value = utf16 '':''\<rparr>,
      \<lparr>part_type = ''minute'', part_value = utf16 ''30''\<rparr>,
      \<lparr>part_type = ''literal'', part_value = utf16 '':''\<rparr>,
      \<lparr>part_type = ''second'', part_value = utf16 ''45''\<rparr>]
     @ (if map_of opts ''fractionalSecondDigits'' = Some (Num 3) then
          [\<lparr>part_type = ''literal'', part_value = utf16 ''.''\<rparr>,
           \<lparr>part_type = ''fractionalSecond'', part_value = utf16 ''000''\<rparr>]
        else [])"

definition formatter_legacy :: "string \<Rightarrow> (string \<times> option_value) list \<Rightarrow> DateTimeValue \<Rightarrow> Part list" where
  "formatter_legacy loc opts v =
     [\<lparr>part_type = ''hour'', part_value = utf16 ''12''\<rparr>,
      \<lparr>part_type = ''literal'', part_value = utf16 '':''\<rparr>,
      \<lparr>part_type = ''minute'', part_value = utf16 ''30''\<rparr>,
      \<lparr>part_type = ''literal'', part_value = utf16 '':''\<rparr>,
      \<lparr>part_type = ''second'', part_value = utf16 ''45''\<rparr>]"

definition limits_unknown :: "DateTimeValue \<Rightarrow> string \<Rightarrow> SegmentLimits" where
  "limits_unknown date type = no_limits"

definition environment_en :: Environment where
  "environment_en =
     \<lparr>formatToParts = formatter_en,
      other_limits = limits_unknown,
      placeholders = dictionary_en,
      placeholderValue = new_Time 0 0 0 None,
      rtl = False\<rparr>"

definition environment_legacy :: Environment where
  "environment_legacy = environment_en\<lparr>formatToParts := formatter_legacy\<rparr>"

definition options_millisecond :: "(string \<times> option_value) list" where
  "options_millisecond =
     [(''year'', Str ''numeric''),
      (''month'', Str ''numeric''),
      (''day'', Str ''numeric''),
      (''hour'', Str ''numeric''),
      (''minute'', Str ''2-digit''),
      (''second'', Str ''2-digit''),
      (''fractionalSecondDigits'', Num 3)]"

definition no_explicit_options :: "string \<rightharpoonup> option_value" where
  "no_explicit_options = Map.empty"

definition time_12_30_45 :: DateTimeValue where
  "time_12_30_45 = new_Time 12 30 45 None"

section \<open>Properties of the display names\<close>

lemma useDisplayNames_cases:
  "displayNames_of I d l =
     (case I l of
        Inr obj \<Rightarrow> wrapped_of obj \<lparr>polyfill_locale = l, polyfill_dictionary = d\<rparr>
      | Inl e \<Rightarrow> DisplayNamesPolyfill_of \<lparr>polyfill_locale = l, polyfill_dictionary = d\<rparr>)"
  by (simp add: displayNames_of_def useDisplayNames_def split: sum.splits)



text \<open>
  C8. The lookup returned by \<open>useDisplayNames\<close> resolves \<open>'millisecond'\<close> to the label of
  the bundled translation table, whatever the platform's \<open>Intl.DisplayNames\<close> does
  (absent, throwing, or not knowing the field): when the table has the label \<open>s\<close> for
  the locale, \<open>of('millisecond')\<close> returns \<open>s\<close>.
\<close>

theorem millisecond_label_from_bundled_table:
  assumes "d ''millisecond'' l = Inr s"
  shows "snd (displayNames_of I d l ''millisecond'') = Inr (Some s)"
  using assms
  by (simp add: useDisplayNames_cases wrapped_of_def DisplayNamesPolyfill_of_def
      split: sum.splits)

theorem millisecond_label_from_bundled_table_witness:
  "dictionary_en ''millisecond'' ''en-US'' = Inr label_ms
   \<and> snd (displayNames_of Intl_absent dictionary_en ''en-US'' ''millisecond'') = Inr (Some label_ms)
   \<and> snd (displayNames_of Intl_v1 dictionary_en ''en-US'' ''millisecond'') = Inr (Some label_ms)"
proof -
  have h: "dictionary_en ''millisecond'' ''en-US'' = Inr label_ms"
    by (simp add: dictionary_en_def)
  show ?thesis
    using h
      millisecond_label_from_bundled_table
        [of dictionary_en "''en-US''" label_ms Intl_absent]
      millisecond_label_from_bundled_table
        [of dictionary_en "''en-US''" label_ms Intl_v1]
    by simp
qed

text \<open>
  C9. For the field \<open>'millisecond'\<close> the returned lookup makes no call to
  \<open>Intl.DisplayNames\<close>: its only call is the dictionary's \<open>getStringForLocale\<close> for the
  current locale, and its outcome is the dictionary's, for every platform.
\<close>

theorem millisecond_never_consults_intl:
  "displayNames_of I d l ''millisecond'' =
     ([GetStringForLocale ''millisecond'' l],
      case d ''millisecond'' l of Inl e \<Rightarrow> Inl (Dictionary e) | Inr s \<Rightarrow> Inr (Some s))"
  by (simp add: useDisplayNames_cases wrapped_of_def DisplayNamesPolyfill_of_def
      split: sum.splits)



section \<open>Properties of the format options\<close>

lemma field_entry_key:
  "k \<in> set field_keys \<Longrightarrow> map fst (field_entry fo k) = [option_key k]"
  by (auto simp: field_keys_def field_entry_def option_key_def DEFAULT_FIELD_OPTIONS_def
      split: option.splits)

lemma field_entries_keys:
  "set ks \<subseteq> set field_keys \<Longrightarrow>
   map fst (concat (map (field_entry fo) ks)) = map option_key ks"
proof (induction ks)
  case Nil
  then show ?case by simp
next
  case (Cons k ks)
  then have "k \<in> set field_keys"
    by simp
  with Cons show ?case
    by (simp add: field_entry_key)
qed

lemma getFormatOptions_keys:
  assumes "g \<in> set Granularity"
  shows "\<exists>opts. getFormatOptions fo g = Inr opts
           \<and> map fst opts = map option_key (take (Suc (field_rank g)) field_keys)"
proof -
  from assms obtain i where i: "indexOf field_keys g = Some i"
    by (auto simp: Granularity_def field_keys_def)
  have "set (take (Suc i) field_keys) \<subseteq> set field_keys"
    by (rule set_take_subset)
  then have "map fst (concat (map (field_entry fo) (take (Suc i) field_keys)))
             = map option_key (take (Suc i) field_keys)"
    by (rule field_entries_keys)
  with assms i show ?thesis
    by (simp add: getFormatOptions_def field_rank_def)
qed

lemma granularity_cases:
  "g \<in> set Granularity \<Longrightarrow>
   g = ''day'' \<or> g = ''hour'' \<or> g = ''minute'' \<or> g = ''second'' \<or> g = ''millisecond''"
  by (auto simp: Granularity_def)

lemma fields_through_granularity:
  assumes "g \<in> set Granularity"
  shows "take (Suc (field_rank g)) field_keys
         = filter (\<lambda>f. field_rank f \<le> field_rank g) field_keys"
  using granularity_cases [OF assms]
  by (elim disjE) (simp_all add: field_rank_def field_keys_def)

text \<open>
  C1. For every granularity and every explicit-options override, the resolved options
  hold exactly the entries of the fields at or above the granularity in the fixed
  ordering (the millisecond field as the fractional-digit count), in that order, and a
  field of the ordering is included if and only if it is at or above the granularity.
\<close>

theorem resolve_includes_exactly_fields_through_granularity:
  assumes "g \<in> set Granularity"
  shows "\<exists>opts. getFormatOptions fo g = Inr opts
           \<and> map fst opts
               = map option_key (filter (\<lambda>f. field_rank f \<le> field_rank g) field_keys)
           \<and> (\<forall>f \<in> set field_keys. has_field opts f \<longleftrightarrow> field_rank f \<le> field_rank g)"
proof -
  from getFormatOptions_keys [OF assms, of fo] obtain opts where
    r: "getFormatOptions fo g = Inr opts" and
    k: "map fst opts = map option_key (take (Suc (field_rank g)) field_keys)"
    by blast
  have k': "map fst opts
            = map option_key (filter (\<lambda>f. field_rank f \<le> field_rank g) field_keys)"
    using k fields_through_granularity [OF assms] by simp
  have "\<forall>f \<in> set field_keys. has_field opts f \<longleftrightarrow> field_rank f \<le> field_rank g"
    unfolding has_field_def k'
    using granularity_cases [OF assms]
    by (elim disjE) (simp_all add: field_rank_def field_keys_def option_key_def)
  with r k' show ?thesis by blast
qed

theorem resolve_includes_exactly_fields_through_granularity_witness:
  "''hour'' \<in> set Granularity
   \<and> (\<exists>opts. getFormatOptions [''hour'' \<mapsto> Str ''2-digit''] ''hour'' = Inr opts
        \<and> map fst opts = [''year'', ''month'', ''day'', ''hour'']
        \<and> has_field opts ''hour'' \<and> \<not> has_field opts ''minute''
        \<and> \<not> has_field opts ''millisecond'')"
proof -
  have g: "''hour'' \<in> set Granularity"
    by (simp add: Granularity_def)
  from resolve_includes_exactly_fields_through_granularity
         [OF g, of "[''hour'' \<mapsto> Str ''2-digit'']"]
  obtain opts where
    r: "getFormatOptions [''hour'' \<mapsto> Str ''2-digit''] ''hour'' = Inr opts" and
    k: "map fst opts
        = map option_key (filter (\<lambda>f. field_rank f \<le> field_rank ''hour'') field_keys)" and
    h: "\<forall>f \<in> set field_keys. has_field opts f \<longleftrightarrow> field_rank f \<le> field_rank ''hour''"
    by blast
  have "map fst opts = [''year'', ''month'', ''day'', ''hour'']"
    using k by (simp add: field_rank_def field_keys_def option_key_def)
  moreover have "has_field opts ''hour'' \<and> \<not> has_field opts ''minute''
                 \<and> \<not> has_field opts ''millisecond''"
    using h by (simp add: field_rank_def field_keys_def)
  ultimately show ?thesis using g r
    by (intro conjI exI [of _ opts]) simp_all
qed

lemma map_of_filter_key:
  "map_of (filter (\<lambda>e. fst e = k) xs) k = map_of xs k"
  by (induction xs) auto

lemma field_entry_fraction:
  "k \<in> set field_keys \<Longrightarrow>
   filter (\<lambda>e. fst e = ''fractionalSecondDigits'') (field_entry fo k)
   = (if k = ''millisecond'' then [(''fractionalSecondDigits'', Num 3)] else [])"
  by (auto simp: field_keys_def field_entry_def DEFAULT_FIELD_OPTIONS_def
      split: option.splits)

text \<open>
  C3. At granularity millisecond the resolved options have one entry for the
  fractional-digit count, and it is 3, for every explicit-options override (also one that
  asks for 1 or 2 digits). The resolver takes no locale.
\<close>

theorem millisecond_granularity_three_fractional_digits:
  "\<exists>opts. getFormatOptions fo ''millisecond'' = Inr opts
     \<and> filter (\<lambda>e. fst e = ''fractionalSecondDigits'') opts
         = [(''fractionalSecondDigits'', Num 3)]
     \<and> map_of opts ''fractionalSecondDigits'' = Some (Num 3)"
proof -
  let ?P = "\<lambda>e::string \<times> option_value. fst e = ''fractionalSecondDigits''"
  let ?opts = "concat (map (field_entry fo) field_keys)"
  have r: "getFormatOptions fo ''millisecond'' = Inr ?opts"
    by (simp add: getFormatOptions_def Granularity_def field_keys_def)
  have "filter ?P ?opts = concat (map (\<lambda>k. filter ?P (field_entry fo k)) field_keys)"
    by (simp add: filter_concat comp_def)
  also have "\<dots> = concat (map (\<lambda>k. if k = ''millisecond''
                 then [(''fractionalSecondDigits'', Num 3)] else []) field_keys)"
    by (intro arg_cong [where f = concat] map_cong refl) (simp add: field_entry_fraction)
  also have "\<dots> = [(''fractionalSecondDigits'', Num 3)]"
    by (simp add: field_keys_def)
  finally have f: "filter ?P ?opts = [(''fractionalSecondDigits'', Num 3)]" .
  have "map_of ?opts ''fractionalSecondDigits''
        = map_of (filter ?P ?opts) ''fractionalSecondDigits''"
    by (simp add: map_of_filter_key)
  with f have "map_of ?opts ''fractionalSecondDigits'' = Some (Num 3)"
    by simp
  with r f show ?thesis by blast
qed

section \<open>Properties of the tables and placeholders\<close>

text \<open>
  C5. The page steps are those of the fixed table: year 5, month 2, day 7, hour 2,
  minute 15, second 15, and 100 for the millisecond field, which the table holds under
  its segment type \<open>fractionalSecond\<close>; the table has no other entry.
\<close>

theorem page_step_table:
  "map_of PAGE_STEP ''year'' = Some 5
   \<and> map_of PAGE_STEP ''month'' = Some 2
   \<and> map_of PAGE_STEP ''day'' = Some 7
   \<and> map_of PAGE_STEP ''hour'' = Some 2
   \<and> map_of PAGE_STEP ''minute'' = Some 15
   \<and> map_of PAGE_STEP ''second'' = Some 15
   \<and> map_of PAGE_STEP ''fractionalSecond'' = Some 100
   \<and> map fst PAGE_STEP
       = [''year'', ''month'', ''day'', ''hour'', ''minute'', ''second'', ''fractionalSecond'']"
  by (simp add: PAGE_STEP_def)

text \<open>
  C7. For every locale (and every table of localized placeholders) the placeholder of
  the millisecond field, segment type \<open>fractionalSecond\<close>, is three dashes, and the
  placeholder of the minute field is two dashes.
\<close>

theorem placeholder_lengths:
  "\<exists>ms mi. getPlaceholder ph ''fractionalSecond'' v loc = Inr ms
     \<and> length ms = 3 \<and> set ms = {en_dash}
     \<and> getPlaceholder ph ''minute'' v loc = Inr mi
     \<and> length mi = 2 \<and> set mi = {en_dash}"
  by (simp add: getPlaceholder_def)

text \<open>
  The names \<open>'millisecond'\<close> and \<open>'fractionalSecond'\<close> are different keys: only the
  latter is a segment type of the field state, and the former gets the default of the
  tables.
\<close>

lemma millisecond_is_not_a_segment_type:
  "\<not> ''millisecond'' \<in> set SegmentType
   \<and> map_of PAGE_STEP ''millisecond'' = None
   \<and> getPlaceholder ph ''millisecond'' v loc = Inr [en_dash, en_dash]"
  by (simp add: SegmentType_def PAGE_STEP_def getPlaceholder_def)

section \<open>Properties of the segment list\<close>

lemma filter_wrap_time_segments:
  assumes "\<not> P (marker 0x2066)" and "\<not> P (marker 0x2069)"
  shows "filter P (wrap_time_segments segs) = filter P segs"
proof (cases "list_ex is_time_segment segs")
  case False
  then show ?thesis by (simp add: wrap_time_segments_def)
next
  case True
  let ?Q = "\<lambda>s. \<not> is_time_segment s"
  let ?rest = "dropWhile ?Q segs"
  have a: "rev (dropWhile ?Q (rev ?rest)) @ rev (takeWhile ?Q (rev ?rest)) = ?rest"
    by (metis rev_append rev_rev_ident takeWhile_dropWhile_id)
  have b: "takeWhile ?Q segs @ ?rest = segs"
    by simp
  have "filter P (wrap_time_segments segs)
        = filter P (takeWhile ?Q segs)
          @ filter P (rev (dropWhile ?Q (rev ?rest)) @ rev (takeWhile ?Q (rev ?rest)))"
    using True assms by (simp add: wrap_time_segments_def Let_def)
  also have "\<dots> = filter P (takeWhile ?Q segs @ ?rest)"
    unfolding a by (simp only: filter_append)
  finally show ?thesis
    unfolding b .
qed

lemma segments_of_type_wrap:
  "t \<noteq> ''literal'' \<Longrightarrow>
   segments_of_type t (wrap_time_segments segs) = segments_of_type t segs"
  unfolding segments_of_type_def
  by (rule filter_wrap_time_segments) (simp_all add: marker_def)

text \<open>The segment of a \<open>fractionalSecond\<close> part when there is a value.\<close>

lemma segment_of_fractionalSecond_part:
  "part_type p = ''fractionalSecond'' \<Longrightarrow>
   segment_of_part env v False loc p =
     Inr \<lparr>segment_type = ''fractionalSecond'',
          segment_text = part_value p,
          segment_limits =
            \<lparr>segment_value = Some (millisecond (time_of v)),
             minValue = Some 0,
             maxValue = Some 999\<rparr>,
          isPlaceholder = False,
          isEditable = True\<rparr>"
  by (simp add: segment_of_part_def EDITABLE_SEGMENTS_def getSegmentLimits_def)

lemma segment_of_other_part:
  "part_type p \<noteq> ''fractionalSecond'' \<Longrightarrow>
   \<exists>seg. segment_of_part env v False loc p = Inr seg
     \<and> segment_type seg \<noteq> ''fractionalSecond''"
  by (simp add: segment_of_part_def)

lemma segments_of_parts_fractionalSecond:
  "\<exists>segs. segments_of_parts env v False loc parts = Inr segs
     \<and> segments_of_type ''fractionalSecond'' segs
       = map (\<lambda>p. \<lparr>segment_type = ''fractionalSecond'',
                    segment_text = part_value p,
                    segment_limits =
                      \<lparr>segment_value = Some (millisecond (time_of v)),
                       minValue = Some 0,
                       maxValue = Some 999\<rparr>,
                    isPlaceholder = False,
                    isEditable = True\<rparr>)
           (parts_of_type ''fractionalSecond'' parts)"
proof (induction parts)
  case Nil
  then show ?case
    by (simp add: segments_of_type_def parts_of_type_def)
next
  case (Cons p parts)
  then obtain segs where
    s: "segments_of_parts env v False loc parts = Inr segs" and
    f: "segments_of_type ''fractionalSecond'' segs
        = map (\<lambda>p. \<lparr>segment_type = ''fractionalSecond'',
                     segment_text = part_value p,
                     segment_limits =
                       \<lparr>segment_value = Some (millisecond (time_of v)),
                        minValue = Some 0,
                        maxValue = Some 999\<rparr>,
                     isPlaceholder = False,
                     isEditable = True\<rparr>)
            (parts_of_type ''fractionalSecond'' parts)"
    by blast
  show ?case
  proof (cases "part_type p = ''fractionalSecond''")
    case True
    with s f segment_of_fractionalSecond_part [OF True, of env v loc] show ?thesis
      by (simp add: segments_of_type_def parts_of_type_def)
  next
    case False
    from segment_of_other_part [OF False, of env v loc] obtain seg where
      "segment_of_part env v False loc p = Inr seg"
      "segment_type seg \<noteq> ''fractionalSecond''"
      by blast
    with s f False show ?thesis
      by (simp add: segments_of_type_def parts_of_type_def)
  qed
qed

lemma processSegments_fractionalSecond:
  "\<exists>segs. processSegments env (Some v) opts loc = Inr segs
     \<and> segments_of_type ''fractionalSecond'' segs
       = map (\<lambda>p. \<lparr>segment_type = ''fractionalSecond'',
                    segment_text = part_value p,
                    segment_limits =
                      \<lparr>segment_value = Some (millisecond (time_of v)),
                       minValue = Some 0,
                       maxValue = Some 999\<rparr>,
                    isPlaceholder = False,
                    isEditable = True\<rparr>)
           (parts_of_type ''fractionalSecond'' (formatToParts env loc opts v))"
proof -
  from segments_of_parts_fractionalSecond [of env v loc "formatToParts env loc opts v"]
  obtain segs where
    s: "segments_of_parts env v False loc (formatToParts env loc opts v) = Inr segs" and
    f: "segments_of_type ''fractionalSecond'' segs
        = map (\<lambda>p. \<lparr>segment_type = ''fractionalSecond'',
                     segment_text = part_value p,
                     segment_limits =
                       \<lparr>segment_value = Some (millisecond (time_of v)),
                        minValue = Some 0,
                        maxValue = Some 999\<rparr>,
                     isPlaceholder = False,
                     isEditable = True\<rparr>)
            (parts_of_type ''fractionalSecond'' (formatToParts env loc opts v))"
    by blast
  have "segments_of_type ''fractionalSecond'' (wrap_time_segments segs)
        = segments_of_type ''fractionalSecond'' segs"
    by (rule segments_of_type_wrap) simp
  with s f show ?thesis
    by (simp add: processSegments_def)
qed

text \<open>
  C2, as stated, fails where the platform's formatter has no support for fractional
  seconds: it reports no \<open>fractionalSecond\<close> part, and the segment list of a time at
  granularity millisecond has the segments hour, minute and second and their literals only.
\<close>

theorem parse_without_fractional_support_counterexample:
  "getFormatOptions no_explicit_options ''millisecond'' = Inr options_millisecond
   \<and> map_sum id (map segment_type)
       (processSegments environment_legacy (Some time_12_30_45) options_millisecond ''en-US'')
     = Inr [''hour'', ''literal'', ''minute'', ''literal'', ''second'']
   \<and> map_sum id (segments_of_type ''fractionalSecond'')
       (processSegments environment_legacy (Some time_12_30_45) options_millisecond ''en-US'')
     = Inr []"
  by (simp add: getFormatOptions_def no_explicit_options_def Granularity_def field_keys_def
      field_entry_def DEFAULT_FIELD_OPTIONS_def options_millisecond_def
      processSegments_def environment_legacy_def environment_en_def formatter_legacy_def
      segment_of_part_def EDITABLE_SEGMENTS_def getSegmentLimits_def limits_unknown_def
      segments_of_type_def)

text \<open>
  C2, amended. For every value and locale for which the platform's formatter, given the
  options resolved for granularity millisecond, reports exactly one part of type
  \<open>fractionalSecond\<close>, the segment list has exactly one segment of that type, the
  millisecond segment; its bounds are 0 and 999 and its value is the millisecond field of
  the value.
\<close>

theorem parse_millisecond_segment:
  assumes "getFormatOptions fo ''millisecond'' = Inr opts"
    and "parts_of_type ''fractionalSecond'' (formatToParts env loc opts v) = [p]"
  shows "\<exists>segs s. processSegments env (Some v) opts loc = Inr segs
           \<and> segments_of_type ''fractionalSecond'' segs = [s]
           \<and> minValue (segment_limits s) = Some 0
           \<and> maxValue (segment_limits s) = Some 999
           \<and> segment_value (segment_limits s) = Some (millisecond (time_of v))"
proof -
  from processSegments_fractionalSecond [of env v opts loc] assms(2)
  obtain segs where
    "processSegments env (Some v) opts loc = Inr segs"
    "segments_of_type ''fractionalSecond'' segs
     = [\<lparr>segment_type = ''fractionalSecond'',
         segment_text = part_value p,
         segment_limits =
           \<lparr>segment_value = Some (millisecond (time_of v)),
            minValue = Some 0,
            maxValue = Some 999\<rparr>,
         isPlaceholder = False,
         isEditable = True\<rparr>]"
    by auto
  then show ?thesis by simp
qed

theorem parse_millisecond_segment_witness:
  "getFormatOptions no_explicit_options ''millisecond'' = Inr options_millisecond
   \<and> parts_of_type ''fractionalSecond''
       (formatToParts environment_en ''en-US'' options_millisecond time_12_30_45)
     = [\<lparr>part_type = ''fractionalSecond'', part_value = utf16 ''000''\<rparr>]
   \<and> (\<exists>segs s.
         processSegments environment_en (Some time_12_30_45) options_millisecond ''en-US''
         = Inr segs
         \<and> segments_of_type ''fractionalSecond'' segs = [s]
         \<and> minValue (segment_limits s) = Some 0
         \<and> maxValue (segment_limits s) = Some 999
         \<and> segment_value (segment_limits s) = Some 0)"
proof -
  have a: "getFormatOptions no_explicit_options ''millisecond'' = Inr options_millisecond"
    by (simp add: getFormatOptions_def no_explicit_options_def Granularity_def field_keys_def
        field_entry_def DEFAULT_FIELD_OPTIONS_def options_millisecond_def)
  have b: "parts_of_type ''fractionalSecond''
             (formatToParts environment_en ''en-US'' options_millisecond time_12_30_45)
           = [\<lparr>part_type = ''fractionalSecond'', part_value = utf16 ''000''\<rparr>]"
    by (simp add: parts_of_type_def environment_en_def formatter_en_def
        options_millisecond_def)
  have c: "millisecond (time_of time_12_30_45) = 0"
    by (simp add: time_12_30_45_def new_Time_def default_millisecond_def)
  show ?thesis
    using a b c parse_millisecond_segment [OF a b]
    by simp
qed

text \<open>
  C6, as stated, fails in its last part where the platform's formatter has no support for
  fractional seconds: a time built without a millisecond argument reads as millisecond 0,
  but its segment list has no millisecond segment.
\<close>

theorem missing_millisecond_no_segment_counterexample:
  "time_12_30_45 = new_Time 12 30 45 None
   \<and> segment_value (getSegmentLimits limits_unknown time_12_30_45 ''fractionalSecond'')
     = Some 0
   \<and> map_sum id (segments_of_type ''fractionalSecond'')
       (processSegments environment_legacy (Some time_12_30_45) options_millisecond ''en-US'')
     = Inr []"
  by (simp add: time_12_30_45_def new_Time_def default_millisecond_def
      processSegments_def environment_legacy_def environment_en_def formatter_legacy_def
      segment_of_part_def EDITABLE_SEGMENTS_def getSegmentLimits_def limits_unknown_def
      segments_of_type_def)

text \<open>
  C6, amended. A value built without a millisecond argument, of any of the three shapes,
  reads as millisecond 0, not \<open>undefined\<close>; and whenever the platform's formatter reports
  a \<open>fractionalSecond\<close> part for it, building the segment list does not fail and a
  millisecond segment is produced: one for each such part, each of value 0.
\<close>

theorem missing_millisecond_segment_zero:
  assumes "v = new_Time h mi s None
           \<or> v = new_CalendarDateTime y mo d h mi s None
           \<or> v = new_ZonedDateTime y mo d z h mi s None"
    and "parts_of_type ''fractionalSecond'' (formatToParts env loc opts v) \<noteq> []"
  shows "segment_value (getSegmentLimits oc v ''fractionalSecond'') = Some 0
         \<and> (\<exists>segs. processSegments env (Some v) opts loc = Inr segs
              \<and> segments_of_type ''fractionalSecond'' segs \<noteq> []
              \<and> map (\<lambda>s. segment_value (segment_limits s))
                    (segments_of_type ''fractionalSecond'' segs)
                = map (\<lambda>p. Some 0)
                    (parts_of_type ''fractionalSecond'' (formatToParts env loc opts v)))"
proof -
  from assms(1) have z: "millisecond (time_of v) = 0"
    by (auto simp: new_Time_def new_CalendarDateTime_def new_ZonedDateTime_def
        default_millisecond_def)
  then have l: "segment_value (getSegmentLimits oc v ''fractionalSecond'') = Some 0"
    by (simp add: getSegmentLimits_def)
  from processSegments_fractionalSecond [of env v opts loc]
  obtain segs where
    p: "processSegments env (Some v) opts loc = Inr segs" and
    f: "segments_of_type ''fractionalSecond'' segs
        = map (\<lambda>p. \<lparr>segment_type = ''fractionalSecond'',
                     segment_text = part_value p,
                     segment_limits =
                       \<lparr>segment_value = Some (millisecond (time_of v)),
                        minValue = Some 0,
                        maxValue = Some 999\<rparr>,
                     isPlaceholder = False,
                     isEditable = True\<rparr>)
            (parts_of_type ''fractionalSecond'' (formatToParts env loc opts v))"
    by blast
  from f assms(2) have n: "segments_of_type ''fractionalSecond'' segs \<noteq> []"
    by simp
  from f z have m: "map (\<lambda>s. segment_value (segment_limits s))
                      (segments_of_type ''fractionalSecond'' segs)
                    = map (\<lambda>p. Some 0)
                        (parts_of_type ''fractionalSecond'' (formatToParts env loc opts v))"
    by (simp add: comp_def)
  from l p n m show ?thesis by blast
qed

theorem missing_millisecond_segment_zero_witness:
  "time_12_30_45 = new_Time 12 30 45 None
   \<and> parts_of_type ''fractionalSecond''
       (formatToParts environment_en ''en-US'' options_millisecond time_12_30_45)
     = [\<lparr>part_type = ''fractionalSecond'', part_value = utf16 ''000''\<rparr>]
   \<and> segment_value (getSegmentLimits limits_unknown time_12_30_45 ''fractionalSecond'') = Some 0
   \<and> (\<exists>segs.
         processSegments environment_en (Some time_12_30_45) options_millisecond ''en-US''
         = Inr segs
         \<and> segments_of_type ''fractionalSecond'' segs \<noteq> []
         \<and> map (\<lambda>s. segment_value (segment_limits s))
               (segments_of_type ''fractionalSecond'' segs)
           = [Some 0])"
proof -
  have a: "time_12_30_45 = new_Time 12 30 45 None"
    by (simp add: time_12_30_45_def)
  have b: "parts_of_type ''fractionalSecond''
             (formatToParts environment_en ''en-US'' options_millisecond time_12_30_45)
           = [\<lparr>part_type = ''fractionalSecond'', part_value = utf16 ''000''\<rparr>]"
    by (simp add: parts_of_type_def environment_en_def formatter_en_def
        options_millisecond_def)
  have h: "time_12_30_45 = new_Time 12 30 45 None
           \<or> time_12_30_45 = new_CalendarDateTime 0 0 0 12 30 45 None
           \<or> time_12_30_45 = new_ZonedDateTime 0 0 0 [] 12 30 45 None"
    using a by simp
  have n: "parts_of_type ''fractionalSecond''
             (formatToParts environment_en ''en-US'' options_millisecond time_12_30_45) \<noteq> []"
    using b by simp
  show ?thesis
    using a b
      missing_millisecond_segment_zero
        [OF h n, of limits_unknown]
    by simp
qed

section \<open>Properties of the page increment\<close>

text \<open>
  A page increment of the millisecond segment is the value's \<open>cycle\<close> of the field
  \<open>millisecond\<close> by the page step 100 with rounding: the result is whatever \<open>cycle\<close>
  returns. No result can have both the millisecond field 50 and a millisecond field that
  is a multiple of 100.
\<close>

lemma page_increment_millisecond_is_cycle:
  "map_of PAGE_STEP ''fractionalSecond'' = Some 100
   \<and> addSegment cycle oc v ''fractionalSecond'' 100 = cycle v ''millisecond'' 100 True"
  by (simp add: PAGE_STEP_def addSegment_def)

lemma page_increment_not_50_and_multiple_of_100:
  "\<not> (millisecond (time_of (addSegment cycle oc v ''fractionalSecond'' 100)) = 50
      \<and> 100 dvd millisecond (time_of (addSegment cycle oc v ''fractionalSecond'' 100)))"
  by auto

lemma setSegment_millisecond_is_set:
  "setSegment set_ms oc v ''fractionalSecond'' n = set_ms v n"
  by (simp add: setSegment_def)

end
